theory Spec2Isabelle
  imports Complex_Main
begin

section \<open>Headless frame recorder of CARLO: \<open>video_visualizer.py\<close>\<close>

text \<open>
  The module has one pure function, \<open>convert_tk_color\<close>, and one class,
  \<open>VideoVisualizer\<close>, whose methods mutate the object and three pieces of process state:
  pyplot's registry of open figures, standard output and the file system (through
  \<open>imageio.mimsave\<close>).  The embedding passes all of that state explicitly and returns
  every exception as a value.

  Conventions.
  \<^item> A Python \<open>str\<close> is a \<open>string\<close>; a character is a code point below 256.
  \<^item> A Python \<open>float\<close> is the real number it stands for: the rounding of a quotient to the
    nearest double is not modelled, the \<open>OverflowError\<close> of an \<open>int\<close> that is too large to
    become a \<open>float\<close> is.
  \<^item> matplotlib, numpy and imageio are not part of the repository.  What the code needs
    from them is a parameter, collected in the record \<open>runtime\<close>.  Module imports are
    taken to succeed.
\<close>

subsection \<open>Values\<close>

datatype py_error = ValueError | OverflowError | OSError

text \<open>A matplotlib colour as the function returns it: a name or hex string, or a tuple.\<close>

datatype mpl_color = Name string | RGB real real real

text \<open>\<open>Optional[str]\<close>: \<open>None\<close> is Python's \<open>None\<close>.\<close>

type_synonym token = "string option"

type_synonym point = "real \<times> real"

text \<open>
  The entity classes live in \<open>entities.py\<close>, which is outside the two source files; the
  variants are those that \<open>update_agents\<close> tests with \<open>isinstance\<close>, with the attributes it
  reads.  The last field is the attribute \<open>color\<close>: \<open>None\<close> when the object has no such
  attribute (\<open>hasattr\<close> is false), \<open>Some t\<close> when it holds the token \<open>t\<close>.
  \<open>RingEntity c r_in r_out col\<close> has \<open>center\<close>, \<open>inner_radius\<close> and \<open>outer_radius\<close>;
  a rectangle has its four \<open>corners\<close>; \<open>OtherEntity\<close> is any object of another class.
\<close>

datatype entity =
    RingEntity point real real "token option"
  | CircleEntity point real "token option"
  | RectangleEntity point point point point "token option"
  | OtherEntity "token option"

text \<open>
  A patch added to the axes; every patch of the source has \<open>edgecolor='none'\<close>, and a
  polygon has \<open>closed=True\<close>.
\<close>

datatype patch = MplCircle point real mpl_color | MplPolygon "point list" mpl_color

text \<open>
  A frame is the array \<open>frame[:, :, :3]\<close> copied from the canvas.  It is represented by its
  shape and by the content of the figure it was rasterised from, which determines its
  pixels: the face colour of the figure, the limits and the face colour given to the
  axes, and the patches in the order in which they were added.
\<close>

record frame =
  rows :: int
  cols :: int
  channels :: nat
  figure_color :: mpl_color
  xlim :: "real \<times> real"
  ylim :: "real \<times> real"
  facecolor :: mpl_color
  patches :: "patch list"

text \<open>
  What the interpreter and the libraries contribute.
  \<^item> \<open>int_max_str_digits\<close>: \<open>sys.get_int_max_str_digits()\<close>, the longest digit string \<open>int\<close>
    converts; \<open>0\<close> is no limit (also an interpreter that predates the limit).
  \<^item> \<open>is_color_like c\<close>: matplotlib accepts \<open>c\<close> as a colour; otherwise the call that
    receives it raises \<open>ValueError\<close>.
  \<^item> \<open>new_figure w h\<close>: \<open>plt.subplots(1, 1, figsize=(w, h), dpi=100)\<close>; \<open>None\<close> when
    matplotlib rejects the size with \<open>ValueError\<close>, otherwise the canvas size in pixels
    \<open>(width, height)\<close> that \<open>fig.canvas.get_width_height()\<close> reports.  The size is
    matplotlib's to compute, in double arithmetic; the model takes it as given.
  \<^item> \<open>figure_facecolor\<close>: the face colour a new figure has (\<open>rcParams['figure.facecolor']\<close>).
  \<^item> \<open>canvas_draw size ps\<close>: \<open>fig.canvas.draw()\<close> on a canvas of \<open>size\<close> pixels holding
    the patches \<open>ps\<close>; \<open>Some e\<close> when it raises \<open>e\<close>, as it does for a canvas too large to
    render.
  \<^item> \<open>poly_fill vs p\<close>: the filled polygon through \<open>vs\<close> covers the point \<open>p\<close>.
  \<^item> \<open>mimsave path frames fps\<close>: \<open>imageio.mimsave\<close>; \<open>Some e\<close> when it raises \<open>e\<close>.
\<close>

record runtime =
  int_max_str_digits :: nat
  is_color_like :: "mpl_color \<Rightarrow> bool"
  new_figure :: "real \<Rightarrow> real \<Rightarrow> (int \<times> int) option"
  figure_facecolor :: mpl_color
  canvas_draw :: "int \<times> int \<Rightarrow> patch list \<Rightarrow> py_error option"
  poly_fill :: "point list \<Rightarrow> point \<Rightarrow> bool"
  mimsave :: "string \<Rightarrow> frame list \<Rightarrow> int \<Rightarrow> py_error option"

subsection \<open>The colour translator\<close>

text \<open>\<open>str.lower\<close> on code points below 256.\<close>

definition lower_char :: "char \<Rightarrow> char" where
  "lower_char c =
     (let n = (of_char c :: nat)
      in if (65 \<le> n \<and> n \<le> 90) \<or> (192 \<le> n \<and> n \<le> 222 \<and> n \<noteq> 215)
         then char_of (n + 32) else c)"

definition lower :: "string \<Rightarrow> string" where
  "lower s = map lower_char s"

text \<open>\<open>\d\<close> on code points below 256: the ASCII digits.\<close>

definition is_digit :: "char \<Rightarrow> bool" where
  "is_digit c = (48 \<le> (of_char c :: nat) \<and> (of_char c :: nat) \<le> 57)"

definition digit_val :: "char \<Rightarrow> nat" where
  "digit_val c = of_char c - 48"

text \<open>
  \<open>re.match(r'^gr[ae]y(\d+)$', s)\<close>, returning group 1.  Without \<open>re.MULTILINE\<close> the
  anchor \<open>$\<close> matches at the end of the string and also just before a newline that ends
  the string.
\<close>

definition match_gray :: "string \<Rightarrow> string option" where
  "match_gray s =
     (case s of
        g # r # v # y # rest \<Rightarrow>
          if g = CHR ''g'' \<and> r = CHR ''r'' \<and> (v = CHR ''a'' \<or> v = CHR ''e'') \<and> y = CHR ''y''
             \<and> takeWhile is_digit rest \<noteq> []
             \<and> (dropWhile is_digit rest = [] \<or> dropWhile is_digit rest = [CHR 0x0A])
          then Some (takeWhile is_digit rest) else None
      | _ \<Rightarrow> None)"

text \<open>The value of a string of decimal digits.\<close>

definition int_of_digits :: "string \<Rightarrow> nat" where
  "int_of_digits ds = foldl (\<lambda>acc c. 10 * acc + digit_val c) 0 ds"

text \<open>
  \<open>int(ds)\<close> for a non-empty string of ASCII digits: \<open>ValueError\<close> when the string is longer
  than the interpreter's limit.
\<close>

definition py_int :: "nat \<Rightarrow> string \<Rightarrow> py_error + nat" where
  "py_int maxd ds =
     (if maxd \<noteq> 0 \<and> maxd < length ds then Inl ValueError else Inr (int_of_digits ds))"

text \<open>
  The least integer that does not convert to a double: halfway between the largest
  double, \<open>2^1024 - 2^971\<close>, and \<open>2^1024\<close>.
\<close>

definition float_limit :: nat where
  "float_limit = 2 ^ 1024 - 2 ^ 970"

text \<open>\<open>n / 100.0\<close> for an \<open>int\<close> \<open>n\<close>: the integer is converted to a \<open>float\<close> first.\<close>

definition truediv_100 :: "nat \<Rightarrow> py_error + real" where
  "truediv_100 n = (if float_limit \<le> n then Inl OverflowError else Inr (real n / 100))"

definition tk_to_mpl :: "(string \<times> string) list" where
  "tk_to_mpl =
     [(''gray'', ''gray''),
      (''grey'', ''gray''),
      (''lightgray'', ''lightgray''),
      (''lightgrey'', ''lightgray''),
      (''darkgray'', ''darkgray''),
      (''darkgrey'', ''darkgray'')]"

definition convert_tk_color :: "nat \<Rightarrow> token \<Rightarrow> py_error + mpl_color" where
  "convert_tk_color maxd color =
     (case color of
        None \<Rightarrow> Inr (Name ''blue'')
      | Some c \<Rightarrow>
          (case match_gray (lower c) of
             Some ds \<Rightarrow>
               (case py_int maxd ds of
                  Inl e \<Rightarrow> Inl e
                | Inr n \<Rightarrow>
                    (case truediv_100 n of
                       Inl e \<Rightarrow> Inl e
                     | Inr level \<Rightarrow> Inr (RGB level level level)))
           | None \<Rightarrow>
               (case map_of tk_to_mpl (lower c) of
                  Some v \<Rightarrow> Inr (Name v)
                | None \<Rightarrow> Inr (Name c))))"

text \<open>\<open>str(n)\<close> for a natural number, used to write a token \<open>gray{n}\<close> and a printed count.\<close>

function decimal :: "nat \<Rightarrow> string" where
  "decimal n =
     (if n < 10 then [char_of (48 + n)]
      else decimal (n div 10) @ [char_of (48 + n mod 10)])"
  by pat_completeness auto
termination
  by (relation "measure id") auto

declare decimal.simps [simp del]

subsection \<open>The recorder\<close>

text \<open>
  The attributes of a \<open>VideoVisualizer\<close> (\<open>bg_color\<close> is \<open>None\<close> until \<open>create_window\<close> has
  set the attribute), followed by the process state its methods touch: the number of
  figures open in pyplot, the lines printed, and the files written by \<open>mimsave\<close>.
\<close>

record state =
  width :: real
  height :: real
  ppm :: int
  frames :: "frame list"
  window_created :: bool
  bg_color :: "token option"
  open_figures :: nat
  stdout :: "string list"
  files :: "(string \<times> frame list \<times> int) list"

text \<open>\<open>__init__\<close>, in a fresh process.\<close>

definition VideoVisualizer :: "real \<Rightarrow> real \<Rightarrow> int \<Rightarrow> state" where
  "VideoVisualizer w h p =
     \<lparr>width = w, height = h, ppm = p, frames = [], window_created = False,
      bg_color = None, open_figures = 0, stdout = [], files = []\<rparr>"

definition create_window :: "token \<Rightarrow> state \<Rightarrow> state" where
  "create_window c s = s\<lparr>bg_color := Some c, window_created := True\<rparr>"

text \<open>\<open>agent.color if hasattr(agent, 'color') else 'blue'\<close>.\<close>

fun agent_color :: "entity \<Rightarrow> token" where
  "agent_color (RingEntity c r_in r_out col) = (case col of None \<Rightarrow> Some ''blue'' | Some t \<Rightarrow> t)"
| "agent_color (CircleEntity c r col) = (case col of None \<Rightarrow> Some ''blue'' | Some t \<Rightarrow> t)"
| "agent_color (RectangleEntity c1 c2 c3 c4 col) = (case col of None \<Rightarrow> Some ''blue'' | Some t \<Rightarrow> t)"
| "agent_color (OtherEntity col) = (case col of None \<Rightarrow> Some ''blue'' | Some t \<Rightarrow> t)"

text \<open>
  The \<open>isinstance\<close> chain of the loop body: the patches one entity adds, given its
  translated colour.  The inner disk of a ring takes \<open>bg\<close>, which \<open>set_facecolor\<close> has
  accepted before the loop.
\<close>

fun agent_patches :: "mpl_color \<Rightarrow> mpl_color \<Rightarrow> entity \<Rightarrow> patch list" where
  "agent_patches bg color (RingEntity c r_in r_out col) =
     [MplCircle c r_out color, MplCircle c r_in bg]"
| "agent_patches bg color (CircleEntity c r col) = [MplCircle c r color]"
| "agent_patches bg color (RectangleEntity c1 c2 c3 c4 col) = [MplPolygon [c1, c2, c3, c4] color]"
| "agent_patches bg color (OtherEntity col) = []"

text \<open>
  One iteration of the loop: the colour is translated for every entity; an entity that
  draws a patch in a colour matplotlib rejects raises \<open>ValueError\<close>.
\<close>

definition draw_agent :: "runtime \<Rightarrow> mpl_color \<Rightarrow> entity \<Rightarrow> py_error + patch list" where
  "draw_agent rt bg agent =
     (case convert_tk_color (int_max_str_digits rt) (agent_color agent) of
        Inl e \<Rightarrow> Inl e
      | Inr color \<Rightarrow>
          if agent_patches bg color agent \<noteq> [] \<and> \<not> is_color_like rt color
          then Inl ValueError
          else Inr (agent_patches bg color agent))"

text \<open>The loop over \<open>agents\<close>; \<open>ax\<close> is the list of patches the axes hold so far.\<close>

fun draw_agents :: "runtime \<Rightarrow> mpl_color \<Rightarrow> patch list \<Rightarrow> entity list \<Rightarrow> py_error + patch list" where
  "draw_agents rt bg ax [] = Inr ax"
| "draw_agents rt bg ax (agent # agents) =
     (case draw_agent rt bg agent of
        Inl e \<Rightarrow> Inl e
      | Inr ps \<Rightarrow> draw_agents rt bg (ax @ ps) agents)"

text \<open>
  \<open>update_agents\<close>.  The figure is registered with pyplot by \<open>plt.subplots\<close> and removed by
  \<open>plt.close(fig)\<close>, the last statement; an exception raised in between, by the
  translation of a colour, by matplotlib when it is given a colour it rejects, or by
  \<open>fig.canvas.draw()\<close>, leaves the method at once.  The result is the exception raised,
  if any, and the state left behind.
\<close>

definition update_agents :: "runtime \<Rightarrow> entity list \<Rightarrow> state \<Rightarrow> py_error option \<times> state" where
  "update_agents rt agents s =
     (case new_figure rt (width s * real_of_int (ppm s) / 100) (height s * real_of_int (ppm s) / 100) of
        None \<Rightarrow> (Some ValueError, s)
      | Some (w_px, h_px) \<Rightarrow>
          (let s1 = s\<lparr>open_figures := open_figures s + 1\<rparr>
           in case convert_tk_color (int_max_str_digits rt)
                     (case bg_color s of None \<Rightarrow> Some ''gray'' | Some t \<Rightarrow> t) of
                Inl e \<Rightarrow> (Some e, s1)
              | Inr bg \<Rightarrow>
                  if \<not> is_color_like rt bg then (Some ValueError, s1)
                  else
                    (case draw_agents rt bg [] agents of
                       Inl e \<Rightarrow> (Some e, s1)
                     | Inr ps \<Rightarrow>
                         (case canvas_draw rt (w_px, h_px) ps of
                            Some e \<Rightarrow> (Some e, s1)
                          | None \<Rightarrow>
                              (None,
                               s1\<lparr>frames := frames s1 @
                                     [\<lparr>rows = h_px, cols = w_px, channels = 3,
                                       figure_color = figure_facecolor rt,
                                       xlim = (0, width s), ylim = (0, height s),
                                       facecolor = bg, patches = ps\<rparr>],
                                   open_figures := open_figures s1 - 1\<rparr>)))))"

definition save_video :: "runtime \<Rightarrow> string \<Rightarrow> int \<Rightarrow> state \<Rightarrow> py_error option \<times> state" where
  "save_video rt filename fps s =
     (if frames s = [] then (None, s\<lparr>stdout := stdout s @ [''No frames to save!'']\<rparr>)
      else
        (case mimsave rt filename (frames s) fps of
           Some e \<Rightarrow> (Some e, s)
         | None \<Rightarrow>
             (None,
              s\<lparr>files := files s @ [(filename, frames s, fps)],
                stdout := stdout s @
                  [''Saved '' @ decimal (length (frames s)) @ '' frames to '' @ filename]\<rparr>)))"

definition save_gif :: "runtime \<Rightarrow> string \<Rightarrow> int \<Rightarrow> state \<Rightarrow> py_error option \<times> state" where
  "save_gif rt filename fps s =
     (if frames s = [] then (None, s\<lparr>stdout := stdout s @ [''No frames to save!'']\<rparr>)
      else
        (case mimsave rt filename (frames s) fps of
           Some e \<Rightarrow> (Some e, s)
         | None \<Rightarrow>
             (None,
              s\<lparr>files := files s @ [(filename, frames s, fps)],
                stdout := stdout s @
                  [''Saved '' @ decimal (length (frames s)) @ '' frames to '' @ filename]\<rparr>)))"

definition close :: "state \<Rightarrow> state" where
  "close s = s\<lparr>window_created := False\<rparr>"

definition clear_frames :: "state \<Rightarrow> state" where
  "clear_frames s = s\<lparr>frames := []\<rparr>"

subsection \<open>Sequences of calls\<close>

text \<open>
  A caller drives one recorder through a sequence of method calls; an exception that no
  one catches ends the sequence.  \<open>create_window\<close> called without an argument is
  \<open>CreateWindow (Some ''gray'')\<close>, the default of the parameter.
\<close>

datatype op =
    CreateWindow token
  | UpdateAgents "entity list"
  | SaveVideo string int
  | SaveGif string int
  | Close
  | ClearFrames

fun step :: "runtime \<Rightarrow> op \<Rightarrow> state \<Rightarrow> py_error option \<times> state" where
  "step rt (CreateWindow c) s = (None, create_window c s)"
| "step rt (UpdateAgents agents) s = update_agents rt agents s"
| "step rt (SaveVideo filename fps) s = save_video rt filename fps s"
| "step rt (SaveGif filename fps) s = save_gif rt filename fps s"
| "step rt Close s = (None, close s)"
| "step rt ClearFrames s = (None, clear_frames s)"

fun run :: "runtime \<Rightarrow> op list \<Rightarrow> state \<Rightarrow> py_error option \<times> state" where
  "run rt [] s = (None, s)"
| "run rt (c # cs) s =
     (case step rt c s of
        (None, s') \<Rightarrow> run rt cs s'
      | (Some e, s') \<Rightarrow> (Some e, s'))"

text \<open>
  A caller that catches every exception and goes on: all the calls are made, and the result
  pairs each call with its outcome.  The state in which an uncaught exception leaves the
  recorder is the state after the calls up to the one that raised.
\<close>

fun calls :: "runtime \<Rightarrow> op list \<Rightarrow> state \<Rightarrow> (op \<times> py_error option) list \<times> state" where
  "calls rt [] s = ([], s)"
| "calls rt (c # cs) s =
     (case step rt c s of
        (r, s1) \<Rightarrow> (case calls rt cs s1 of (made, s') \<Rightarrow> ((c, r) # made, s')))"

text \<open>
  The entity lists of the captures that returned and that follow the last \<open>clear_frames\<close>
  of such a list of calls and outcomes, in call order.
\<close>

fun captures :: "(op \<times> py_error option) list \<Rightarrow> entity list list" where
  "captures [] = []"
| "captures ((c, r) # made) =
     (if ClearFrames \<in> set (map fst made) then captures made
      else (case (c, r) of
              (UpdateAgents agents, None) \<Rightarrow> agents # captures made
            | _ \<Rightarrow> captures made))"

text \<open>
  \<open>captured rt w h p agents f\<close>: \<open>f\<close> is a frame that a recorder of extent \<open>w\<close>, \<open>h\<close> and
  density \<open>p\<close> takes of \<open>agents\<close>: it has the canvas size of the figure, three channels,
  the face colour of the figure, the axes limits of the world, and the patches of
  \<open>agents\<close>, drawn with its axes face colour for the inner disks of the rings.
\<close>

definition captured :: "runtime \<Rightarrow> real \<Rightarrow> real \<Rightarrow> int \<Rightarrow> entity list \<Rightarrow> frame \<Rightarrow> bool" where
  "captured rt w h p agents f =
     (new_figure rt (w * real_of_int p / 100) (h * real_of_int p / 100) = Some (cols f, rows f)
      \<and> channels f = 3
      \<and> figure_color f = figure_facecolor rt
      \<and> xlim f = (0, w) \<and> ylim f = (0, h)
      \<and> is_color_like rt (facecolor f)
      \<and> draw_agents rt (facecolor f) [] agents = Inr (patches f)
      \<and> canvas_draw rt (cols f, rows f) (patches f) = None)"

subsection \<open>What a frame shows\<close>

text \<open>
  The painter's reading of a figure, in world coordinates: patches are opaque and are
  painted in the order in which they were added (they all have the default z-order), so
  a point shows the colour of the last patch that covers it.  \<open>ax.axis('off')\<close> (line 77)
  turns the axes off, and matplotlib then does not draw the axes patch: the face colour
  that line 75 gives the axes is not painted, and a point that no patch covers shows the
  face colour of the figure.  Antialiasing at the edges is not part of it.
\<close>

definition in_disk :: "point \<Rightarrow> real \<Rightarrow> point \<Rightarrow> bool" where
  "in_disk c r p = ((fst p - fst c)\<^sup>2 + (snd p - snd c)\<^sup>2 \<le> r\<^sup>2)"

fun covers :: "runtime \<Rightarrow> patch \<Rightarrow> point \<Rightarrow> bool" where
  "covers rt (MplCircle c r col) p = in_disk c r p"
| "covers rt (MplPolygon vs col) p = poly_fill rt vs p"

fun patch_color :: "patch \<Rightarrow> mpl_color" where
  "patch_color (MplCircle c r col) = col"
| "patch_color (MplPolygon vs col) = col"

definition paint :: "runtime \<Rightarrow> point \<Rightarrow> mpl_color \<Rightarrow> patch list \<Rightarrow> mpl_color" where
  "paint rt p base ps = foldl (\<lambda>shown q. if covers rt q p then patch_color q else shown) base ps"

definition color_at :: "runtime \<Rightarrow> frame \<Rightarrow> point \<Rightarrow> mpl_color" where
  "color_at rt f p = paint rt p (figure_color f) (patches f)"

subsection \<open>A runtime for closed examples\<close>

text \<open>
  One concrete runtime, to evaluate the model on the inputs of the examples below: the
  default digit limit of CPython, a few of matplotlib's colour names and the tuples with
  channels in \<open>[0, 1]\<close>, white figures, a renderer and an encoder that do not fail, and
  polygons filled by the even-odd rule.  The canvas sizes are a table of the two figure
  sizes the examples use, with the sizes matplotlib gives them: 7.2 by 7.2 inches
  (a world of 120 by 120 at 6 pixels per unit) is 720 by 720 pixels, and 0.315 by 0.3
  inches (a world of 10.5 by 10 at 3 pixels per unit) is 31 by 30 pixels.  No example
  asks for another size or for a colour name outside the list, and the answers there stand
  for nothing.
\<close>

definition sample_colors :: "string list" where
  "sample_colors =
     [''blue'', ''gray'', ''lightgray'', ''darkgray'', ''white'', ''black'', ''red'',
      ''green'', ''yellow'']"

fun sample_is_color_like :: "mpl_color \<Rightarrow> bool" where
  "sample_is_color_like (Name n) = (n \<in> set sample_colors)"
| "sample_is_color_like (RGB r g b) = (0 \<le> r \<and> r \<le> 1 \<and> 0 \<le> g \<and> g \<le> 1 \<and> 0 \<le> b \<and> b \<le> 1)"

definition sample_canvas :: "real \<Rightarrow> real \<Rightarrow> (int \<times> int) option" where
  "sample_canvas w h =
     (if w = 7.2 \<and> h = 7.2 then Some (720, 720)
      else if w = 0.315 \<and> h = 0.3 then Some (31, 30)
      else None)"

definition crosses :: "point \<Rightarrow> point \<times> point \<Rightarrow> bool" where
  "crosses p e =
     (case e of ((x1, y1), (x2, y2)) \<Rightarrow>
        ((snd p < y1) \<noteq> (snd p < y2))
        \<and> fst p < (x2 - x1) * (snd p - y1) / (y2 - y1) + x1)"

definition even_odd_fill :: "point list \<Rightarrow> point \<Rightarrow> bool" where
  "even_odd_fill vs p = odd (length (filter (crosses p) (zip vs (rotate1 vs))))"

definition sample_runtime :: runtime where
  "sample_runtime =
     \<lparr>int_max_str_digits = 4300,
      is_color_like = sample_is_color_like,
      new_figure = sample_canvas,
      figure_facecolor = Name ''white'',
      canvas_draw = (\<lambda>size ps. None),
      poly_fill = even_odd_fill,
      mimsave = (\<lambda>path fs fps. None)\<rparr>"

section \<open>Properties\<close>

subsection \<open>The colour translator\<close>

lemma lower_char_digit: "is_digit c \<Longrightarrow> lower_char c = c"
  by (simp add: is_digit_def lower_char_def Let_def)

lemma is_digit_char_of: "(n::nat) < 10 \<Longrightarrow> is_digit (char_of (48 + n))"
  by (simp add: is_digit_def)

lemma digit_val_char_of: "n < 10 \<Longrightarrow> digit_val (char_of (48 + n)) = n"
  by (simp add: digit_val_def)

lemma decimal_digits: "list_all is_digit (decimal n)"
proof (induction n rule: decimal.induct)
  case (1 n)
  show ?case
  proof (cases "n < 10")
    case True
    then show ?thesis by (simp add: decimal.simps [of n] is_digit_char_of)
  next
    case False
    then show ?thesis using 1 by (simp add: decimal.simps [of n] is_digit_char_of)
  qed
qed

lemma decimal_nonempty: "decimal n \<noteq> []"
  by (simp add: decimal.simps [of n])

lemma int_of_digits_snoc: "int_of_digits (ds @ [c]) = 10 * int_of_digits ds + digit_val c"
  by (simp add: int_of_digits_def)

lemma int_of_digits_decimal: "int_of_digits (decimal n) = n"
proof (induction n rule: decimal.induct)
  case (1 n)
  show ?case
  proof (cases "n < 10")
    case True
    then show ?thesis by (simp add: decimal.simps [of n] int_of_digits_def digit_val_char_of)
  next
    case False
    then have "int_of_digits (decimal n) = 10 * (n div 10) + n mod 10"
      using 1 by (simp add: decimal.simps [of n] int_of_digits_snoc digit_val_char_of)
    then show ?thesis by simp
  qed
qed

lemma length_decimal: "n < 10 ^ k \<Longrightarrow> 0 < k \<Longrightarrow> length (decimal n) \<le> k"
proof (induction n arbitrary: k rule: decimal.induct)
  case (1 n)
  show ?case
  proof (cases "n < 10")
    case True
    then show ?thesis using 1(3) by (simp add: decimal.simps [of n])
  next
    case False
    obtain j where k: "k = Suc j" using 1(3) by (cases k) auto
    have j: "0 < j" using False 1(2) k by (cases j) auto
    have "n div 10 < 10 ^ j" using 1(2) k by (simp add: less_mult_imp_div_less mult.commute)
    then have "length (decimal (n div 10)) \<le> j" using 1(1) [OF False _ j] by simp
    then show ?thesis using False k by (simp add: decimal.simps [of n])
  qed
qed

lemma float_limit_digits: "float_limit < 10 ^ 309"
  by (simp add: float_limit_def)

lemma lower_append: "lower (p @ q) = lower p @ lower q"
  by (simp add: lower_def)

lemma lower_digits: "list_all is_digit ds \<Longrightarrow> lower ds = ds"
  by (induction ds) (simp_all add: lower_def lower_char_digit)

lemma takeWhile_all: "list_all P xs \<Longrightarrow> takeWhile P xs = xs"
  by (induction xs) simp_all

lemma dropWhile_all: "list_all P xs \<Longrightarrow> dropWhile P xs = []"
  by (induction xs) simp_all

lemma match_gray_digits:
  assumes "p = ''gray'' \<or> p = ''grey''" and "list_all is_digit ds" and "ds \<noteq> []"
  shows "match_gray (p @ ds) = Some ds"
  using assms by (auto simp: match_gray_def takeWhile_all dropWhile_all list_all_iff)

lemma convert_gray_digits:
  assumes "lower prefix = ''gray'' \<or> lower prefix = ''grey''"
  shows "convert_tk_color maxd (Some (prefix @ decimal n)) =
           (if maxd \<noteq> 0 \<and> maxd < length (decimal n) then Inl ValueError
            else if float_limit \<le> n then Inl OverflowError
            else Inr (RGB (real n / 100) (real n / 100) (real n / 100)))"
proof -
  have "match_gray (lower (prefix @ decimal n)) = Some (decimal n)"
    using match_gray_digits [OF assms decimal_digits decimal_nonempty, of n]
    by (simp add: lower_append lower_digits decimal_digits)
  then show ?thesis
    by (simp add: convert_tk_color_def py_int_def truediv_100_def int_of_digits_decimal)
qed



text \<open>
  C2, as amended.  Let \<open>n\<close> be below \<open>float_limit\<close>, that is, an integer that converts to a
  finite double, and let the digit limit of the interpreter be one it accepts (none, or at
  least 640 digits).  For every spelling of the prefix that lowers to \<open>gray\<close> or \<open>grey\<close>,
  the token made of the prefix and the decimal digits of \<open>n\<close> translates to the neutral
  colour with every channel \<open>n / 100\<close>.  Nothing is clamped: \<open>n = 150\<close> gives \<open>1.5\<close>; and
  \<open>gray50\<close> and \<open>grey50\<close> translate alike.
\<close>

theorem gray_token_level:
  assumes "lower prefix = ''gray'' \<or> lower prefix = ''grey''"
    and "n < float_limit"
    and "maxd = 0 \<or> 640 \<le> maxd"
  shows "convert_tk_color maxd (Some (prefix @ decimal n)) =
           Inr (RGB (real n / 100) (real n / 100) (real n / 100))"
proof -
  have "n < 10 ^ 309"
    using assms(2) float_limit_digits by simp
  then have "length (decimal n) \<le> 309"
    by (rule length_decimal) simp
  then have "\<not> (maxd \<noteq> 0 \<and> maxd < length (decimal n))"
    using assms(3) by auto
  then show ?thesis
    using assms(2) by (simp add: convert_gray_digits [OF assms(1)])
qed

theorem gray_token_level_witness:
  "lower ''GrEy'' = ''grey'' \<and> (150::nat) < float_limit
   \<and> convert_tk_color 4300 (Some ''GrEy150'') = Inr (RGB 1.5 1.5 1.5)
   \<and> convert_tk_color 4300 (Some ''gray50'') = Inr (RGB 0.5 0.5 0.5)
   \<and> convert_tk_color 4300 (Some ''grey50'') = convert_tk_color 4300 (Some ''gray50'')"
proof -
  have p1: "lower ''GrEy'' = ''grey''" and p2: "lower ''gray'' = ''gray''"
    and p3: "lower ''grey'' = ''grey''"
    by code_simp+
  have d1: "''GrEy'' @ decimal 150 = ''GrEy150''" and d2: "''gray'' @ decimal 50 = ''gray50''"
    and d3: "''grey'' @ decimal 50 = ''grey50''"
    by code_simp+
  have n1: "(150::nat) < float_limit" and n2: "(50::nat) < float_limit"
    by (simp_all add: float_limit_def)
  have "convert_tk_color 4300 (Some ''GrEy150'') = Inr (RGB 1.5 1.5 1.5)"
    using gray_token_level [of "''GrEy''" 150 4300] p1 n1 d1 by simp
  moreover have "convert_tk_color 4300 (Some ''gray50'') = Inr (RGB 0.5 0.5 0.5)"
    using gray_token_level [of "''gray''" 50 4300] p2 n2 d2 by simp
  moreover have "convert_tk_color 4300 (Some ''grey50'') = Inr (RGB 0.5 0.5 0.5)"
    using gray_token_level [of "''grey''" 50 4300] p3 n2 d3 by simp
  ultimately show ?thesis
    using p1 n1 by simp
qed

text \<open>
  C2 as stated, for every \<open>n \<ge> 0\<close>, fails: at \<open>n = 10^400\<close> the conversion of the parsed
  integer to a \<open>float\<close> raises \<open>OverflowError\<close> and no colour is returned.
\<close>

theorem gray_token_overflow:
  "convert_tk_color 4300 (Some (''gray'' @ decimal (10 ^ 400))) = Inl OverflowError"
proof -
  have p: "lower ''gray'' = ''gray'' \<or> lower ''gray'' = ''grey''"
    by code_simp
  have "length (decimal (10 ^ 400)) \<le> 401"
    by (rule length_decimal) simp_all
  then have l: "\<not> ((4300::nat) \<noteq> 0 \<and> 4300 < length (decimal (10 ^ 400)))"
    by simp
  have f: "float_limit \<le> 10 ^ 400"
    by (simp add: float_limit_def)
  show ?thesis
    by (subst convert_gray_digits [OF p]) (simp only: l f if_True if_False)
qed

text \<open>
  C8, as amended.  An absent token gives \<open>blue\<close>; a token that matches neither the
  grey-level pattern nor an alias is returned unchanged; and the function raises exactly
  on the tokens that match the grey-level pattern with a digit string longer than the
  interpreter's limit (\<open>ValueError\<close>) or of a value from \<open>float_limit\<close> on
  (\<open>OverflowError\<close>).  On every other token it returns.
\<close>

theorem convert_tk_color_cases:
  "convert_tk_color maxd None = Inr (Name ''blue'')
   \<and> (match_gray (lower c) = None \<and> map_of tk_to_mpl (lower c) = None
        \<longrightarrow> convert_tk_color maxd (Some c) = Inr (Name c))
   \<and> ((\<exists>e. convert_tk_color maxd color = Inl e)
        = (\<exists>t ds. color = Some t \<and> match_gray (lower t) = Some ds
             \<and> ((maxd \<noteq> 0 \<and> maxd < length ds) \<or> float_limit \<le> int_of_digits ds)))"
proof (intro conjI)
  show "convert_tk_color maxd None = Inr (Name ''blue'')"
    by (simp add: convert_tk_color_def)
  show "match_gray (lower c) = None \<and> map_of tk_to_mpl (lower c) = None
        \<longrightarrow> convert_tk_color maxd (Some c) = Inr (Name c)"
    by (simp add: convert_tk_color_def)
  show "(\<exists>e. convert_tk_color maxd color = Inl e)
        = (\<exists>t ds. color = Some t \<and> match_gray (lower t) = Some ds
             \<and> ((maxd \<noteq> 0 \<and> maxd < length ds) \<or> float_limit \<le> int_of_digits ds))"
    by (auto simp: convert_tk_color_def py_int_def truediv_100_def
        split: option.splits sum.splits if_splits)
qed

theorem convert_tk_color_cases_witness:
  "match_gray (lower ''#ff00ff'') = None \<and> map_of tk_to_mpl (lower ''#ff00ff'') = None
   \<and> convert_tk_color 4300 (Some ''#ff00ff'') = Inr (Name ''#ff00ff'')
   \<and> convert_tk_color 4300 None = Inr (Name ''blue'')"
proof -
  have m: "match_gray (lower ''#ff00ff'') = None"
    by code_simp
  have a: "map_of tk_to_mpl (lower ''#ff00ff'') = None"
    by code_simp
  show ?thesis
    using m a convert_tk_color_cases [of 4300 "''#ff00ff''" None] by simp
qed

text \<open>
  C8 as stated, no exception for any token, fails at \<open>GREY\<close> followed by the digits of
  \<open>2^1024\<close>.
\<close>

theorem grey_token_overflow:
  "convert_tk_color 4300 (Some (''GREY'' @ decimal (2 ^ 1024))) = Inl OverflowError"
proof -
  have p: "lower ''GREY'' = ''gray'' \<or> lower ''GREY'' = ''grey''"
    by code_simp
  have "(2::nat) ^ 1024 < 10 ^ 309"
    by simp
  then have "length (decimal (2 ^ 1024)) \<le> 309"
    by (rule length_decimal) simp
  then have l: "\<not> ((4300::nat) \<noteq> 0 \<and> 4300 < length (decimal (2 ^ 1024)))"
    by simp
  have f: "float_limit \<le> 2 ^ 1024"
    by (simp add: float_limit_def)
  show ?thesis
    by (subst convert_gray_digits [OF p]) (simp only: l f if_True if_False)
qed

subsection \<open>Capturing\<close>

lemma lower_gray: "lower ''gray'' = ''gray''"
  by code_simp

lemma convert_gray_name: "convert_tk_color maxd (Some ''gray'') = Inr (Name ''gray'')"
  by (simp add: convert_tk_color_def lower_gray match_gray_def tk_to_mpl_def)

lemma convert_gray150: "convert_tk_color 4300 (Some ''gray150'') = Inr (RGB 1.5 1.5 1.5)"
proof -
  have p: "lower ''gray'' = ''gray'' \<or> lower ''gray'' = ''grey''"
    by (simp add: lower_gray)
  have d: "''gray'' @ decimal 150 = ''gray150''"
    by code_simp
  have n: "\<not> float_limit \<le> 150"
    by (simp add: float_limit_def)
  have l: "length (decimal 150) = 3"
    by code_simp
  show ?thesis
    using convert_gray_digits [OF p, of 4300 150] d n l by simp
qed

lemma update_agents_None:
  assumes "update_agents rt agents s = (None, s')"
  shows "\<exists>f. s' = s\<lparr>frames := frames s @ [f]\<rparr>
           \<and> captured rt (width s) (height s) (ppm s) agents f
           \<and> convert_tk_color (int_max_str_digits rt)
                (case bg_color s of None \<Rightarrow> Some ''gray'' | Some t \<Rightarrow> t) = Inr (facecolor f)"
  using assms
  by (auto simp: update_agents_def captured_def Let_def
      split: option.splits sum.splits if_splits prod.splits)

lemma update_agents_Some:
  assumes "update_agents rt agents s = (Some e, s')"
  shows "frames s' = frames s
         \<and> (if new_figure rt (width s * real_of_int (ppm s) / 100)
                  (height s * real_of_int (ppm s) / 100) = None
             then s' = s else s' = s\<lparr>open_figures := open_figures s + 1\<rparr>)"
  using assms
  by (auto simp: update_agents_def Let_def
      split: option.splits sum.splits if_splits prod.splits)


text \<open>
  The guard of line 74: on a recorder whose \<open>bg_color\<close> attribute has never been set,
  \<open>update_agents\<close> does what it does after \<open>create_window('gray')\<close>, with the same outcome
  and the same state but for the two attributes \<open>create_window\<close> sets.
\<close>

lemma update_agents_default_bg:
  assumes "bg_color s = None"
  shows "update_agents rt agents s =
           (case update_agents rt agents (create_window (Some ''gray'') s) of
              (r, s') \<Rightarrow> (r, s'\<lparr>bg_color := None, window_created := window_created s\<rparr>))"
  using assms
  by (auto simp: update_agents_def create_window_def Let_def
      split: option.splits sum.splits prod.splits)

lemma sample_capture_empty:
  assumes "width s = 120" and "height s = 120" and "ppm s = 6"
    and "bg_color s = None \<or> bg_color s = Some (Some ''gray'')"
  shows "update_agents sample_runtime [] s =
           (None, s\<lparr>frames := frames s @
              [\<lparr>rows = 720, cols = 720, channels = 3, figure_color = Name ''white'',
                xlim = (0, 120), ylim = (0, 120),
                facecolor = Name ''gray'', patches = []\<rparr>]\<rparr>)"
  using assms
  by (auto simp: update_agents_def sample_runtime_def sample_canvas_def convert_gray_name
      sample_colors_def)

text \<open>
  C10.  On a recorder on which \<open>create_window\<close> was never called, \<open>update_agents\<close> returns
  and appends one frame, and \<open>gray\<close> is the face colour it gives the axes: the missing
  attribute is guarded.  But the frame is not rendered against \<open>gray\<close>.  The axes are
  turned off at line 77, so the face colour set at line 75 is never painted, and a point
  that no patch covers, here the centre of an empty world, shows the white of the figure.
\<close>

theorem capture_background_not_painted:
  "update_agents sample_runtime [] (VideoVisualizer 120 120 6)
     = (None, (VideoVisualizer 120 120 6)
          \<lparr>frames :=
             [\<lparr>rows = 720, cols = 720, channels = 3, figure_color = Name ''white'',
               xlim = (0, 120), ylim = (0, 120),
               facecolor = Name ''gray'', patches = []\<rparr>]\<rparr>)
   \<and> color_at sample_runtime
        \<lparr>rows = 720, cols = 720, channels = 3, figure_color = Name ''white'',
         xlim = (0, 120), ylim = (0, 120),
         facecolor = Name ''gray'', patches = []\<rparr>
        (60, 60) = Name ''white''"
proof (intro conjI)
  show "update_agents sample_runtime [] (VideoVisualizer 120 120 6)
     = (None, (VideoVisualizer 120 120 6)
          \<lparr>frames :=
             [\<lparr>rows = 720, cols = 720, channels = 3, figure_color = Name ''white'',
               xlim = (0, 120), ylim = (0, 120),
               facecolor = Name ''gray'', patches = []\<rparr>]\<rparr>)"
    by (subst sample_capture_empty) (simp_all add: VideoVisualizer_def)
qed (simp add: color_at_def paint_def)

lemma update_agents_frames:
  "frames (snd (update_agents rt agents s)) =
     (if fst (update_agents rt agents s) = None
      then frames s @ [last (frames (snd (update_agents rt agents s)))] else frames s)"
proof (cases "update_agents rt agents s")
  case (Pair r s')
  show ?thesis
  proof (cases r)
    case None
    then show ?thesis
      using Pair update_agents_None [of rt agents s s'] by auto
  next
    case (Some e)
    then show ?thesis
      using Pair update_agents_Some [of rt agents s e s'] by auto
  qed
qed

text \<open>
  C7.  \<open>clear_frames\<close> empties the frame buffer and changes nothing else: width, height,
  density and the stored background colour are as before.  A capture that follows it and
  returns leaves a buffer of length 1, whatever the length was before the clear (a capture
  that raises leaves it empty).
\<close>

theorem clear_frames_resets:
  "clear_frames s = s\<lparr>frames := []\<rparr>
   \<and> frames (clear_frames s) = []
   \<and> width (clear_frames s) = width s
   \<and> height (clear_frames s) = height s
   \<and> ppm (clear_frames s) = ppm s
   \<and> bg_color (clear_frames s) = bg_color s
   \<and> window_created (clear_frames s) = window_created s
   \<and> length (frames (snd (update_agents rt agents (clear_frames s)))) =
        (if fst (update_agents rt agents (clear_frames s)) = None then 1 else 0)"
proof -
  have "length (frames (snd (update_agents rt agents (clear_frames s)))) =
        (if fst (update_agents rt agents (clear_frames s)) = None then 1 else 0)"
    by (subst update_agents_frames) (simp add: clear_frames_def)
  then show ?thesis
    by (simp add: clear_frames_def)
qed

theorem clear_frames_resets_witness:
  "length (frames ((VideoVisualizer 120 120 6)
      \<lparr>frames := replicate 2 \<lparr>rows = 720, cols = 720, channels = 3, figure_color = Name ''white'',
                                            xlim = (0, 120),
          ylim = (0, 120), facecolor = Name ''gray'', patches = []\<rparr>\<rparr>)) = 2
   \<and> length (frames (snd (update_agents sample_runtime []
        (clear_frames ((VideoVisualizer 120 120 6)
          \<lparr>frames := replicate 2 \<lparr>rows = 720, cols = 720, channels = 3, figure_color = Name ''white'',
                                                xlim = (0, 120),
              ylim = (0, 120), facecolor = Name ''gray'', patches = []\<rparr>\<rparr>))))) = 1"
proof -
  define s2 where "s2 = (VideoVisualizer 120 120 6)
      \<lparr>frames := replicate 2 \<lparr>rows = 720, cols = 720, channels = 3, figure_color = Name ''white'',
                                            xlim = (0, 120),
          ylim = (0, 120), facecolor = Name ''gray'', patches = []\<rparr>\<rparr>"
  have l2: "length (frames s2) = 2"
    by (simp add: s2_def)
  have ok: "fst (update_agents sample_runtime [] (clear_frames s2)) = None"
    by (simp add: sample_capture_empty clear_frames_def VideoVisualizer_def s2_def)
  have "length (frames (snd (update_agents sample_runtime [] (clear_frames s2)))) =
        (if fst (update_agents sample_runtime [] (clear_frames s2)) = None then 1 else 0)"
    using clear_frames_resets [of s2 sample_runtime "[]"] by (elim conjE)
  then have "length (frames (snd (update_agents sample_runtime [] (clear_frames s2)))) = 1"
    by (simp add: ok)
  then show ?thesis
    using l2 unfolding s2_def by (rule_tac conjI)
qed

text \<open>
  C5, as amended.  \<open>close\<close> sets \<open>window_created\<close> to false and changes nothing else, and
  \<open>update_agents\<close> never reads that flag: a capture after \<open>close\<close> has the outcome it
  would have had without it, and appends its frame when it returns.
\<close>

theorem close_only_clears_flag:
  "close s = s\<lparr>window_created := False\<rparr>
   \<and> update_agents rt agents (close s) =
       (case update_agents rt agents s of (r, s') \<Rightarrow> (r, close s'))
   \<and> length (frames (snd (update_agents rt agents (close s)))) =
       length (frames s) + (if fst (update_agents rt agents s) = None then 1 else 0)"
proof -
  have c: "update_agents rt agents (close s) =
       (case update_agents rt agents s of (r, s') \<Rightarrow> (r, close s'))"
    by (auto simp: update_agents_def close_def Let_def
        split: option.splits sum.splits prod.splits)
  have f: "fst (update_agents rt agents (close s)) = fst (update_agents rt agents s)"
    by (simp add: c split: prod.splits)
  have "length (frames (snd (update_agents rt agents (close s)))) =
       length (frames (close s)) + (if fst (update_agents rt agents (close s)) = None then 1 else 0)"
    by (subst update_agents_frames) simp
  then have "length (frames (snd (update_agents rt agents (close s)))) =
       length (frames s) + (if fst (update_agents rt agents s) = None then 1 else 0)"
    unfolding f by (simp add: close_def)
  then show ?thesis
    using c by (simp add: close_def)
qed

text \<open>
  C5 as stated, no frame appended by a capture that follows \<open>close\<close>, fails: after
  \<open>create_window\<close>, \<open>close\<close>, the next \<open>update_agents\<close> returns and the buffer grows from
  0 frames to 1.
\<close>

theorem capture_after_close_appends:
  "fst (run sample_runtime [CreateWindow (Some ''gray''), Close, UpdateAgents []]
          (VideoVisualizer 120 120 6)) = None
   \<and> \<not> window_created (snd (run sample_runtime [CreateWindow (Some ''gray''), Close, UpdateAgents []]
          (VideoVisualizer 120 120 6)))
   \<and> length (frames (snd (run sample_runtime [CreateWindow (Some ''gray''), Close]
          (VideoVisualizer 120 120 6)))) = 0
   \<and> length (frames (snd (run sample_runtime [CreateWindow (Some ''gray''), Close, UpdateAgents []]
          (VideoVisualizer 120 120 6)))) = 1"
  by (simp add: sample_capture_empty VideoVisualizer_def create_window_def close_def)

lemma convert_overflow_token:
  "convert_tk_color 4300 (Some (''gray'' @ decimal (2 ^ 1024))) = Inl OverflowError"
proof -
  have p: "lower ''gray'' = ''gray'' \<or> lower ''gray'' = ''grey''"
    by (simp add: lower_gray)
  have "(2::nat) ^ 1024 < 10 ^ 309"
    by simp
  then have "length (decimal (2 ^ 1024)) \<le> 309"
    by (rule length_decimal) simp
  then have l: "\<not> ((4300::nat) \<noteq> 0 \<and> 4300 < length (decimal (2 ^ 1024)))"
    by simp
  have f: "float_limit \<le> 2 ^ 1024"
    by (simp add: float_limit_def)
  show ?thesis
    by (subst convert_gray_digits [OF p]) (simp only: l f if_True if_False)
qed

lemma sample_capture_bad_circle:
  assumes "convert_tk_color 4300 (Some t) = Inl e"
  shows "update_agents sample_runtime [CircleEntity (60, 60) 30 (Some (Some t))]
      (create_window (Some ''gray'') (VideoVisualizer 120 120 6))
    = (Some e, (create_window (Some ''gray'') (VideoVisualizer 120 120 6))\<lparr>open_figures := 1\<rparr>)"
  using assms
  by (simp add: update_agents_def sample_runtime_def sample_canvas_def create_window_def
      VideoVisualizer_def convert_gray_name draw_agent_def sample_colors_def)

text \<open>
  C4.  The calls below raise inside the loop over the agents, after \<open>plt.subplots\<close> has
  opened the figure: the first because matplotlib rejects the colour \<open>(1.5, 1.5, 1.5)\<close> of
  \<open>gray150\<close>, the second because \<open>convert_tk_color\<close> overflows.  The frame buffer is as it
  was, so no partial frame is kept; but \<open>plt.close(fig)\<close> is never reached, and the
  figure stays open: one open figure where there was none.
\<close>

theorem failed_capture_leaves_figure_open:
  "update_agents sample_runtime [CircleEntity (60, 60) 30 (Some (Some ''gray150''))]
      (create_window (Some ''gray'') (VideoVisualizer 120 120 6))
    = (Some ValueError,
       (create_window (Some ''gray'') (VideoVisualizer 120 120 6))\<lparr>open_figures := 1\<rparr>)
   \<and> update_agents sample_runtime
        [CircleEntity (60, 60) 30 (Some (Some (''gray'' @ decimal (2 ^ 1024))))]
        (create_window (Some ''gray'') (VideoVisualizer 120 120 6))
    = (Some OverflowError,
       (create_window (Some ''gray'') (VideoVisualizer 120 120 6))\<lparr>open_figures := 1\<rparr>)
   \<and> open_figures (create_window (Some ''gray'') (VideoVisualizer 120 120 6)) = 0"
proof (intro conjI)
  show "update_agents sample_runtime [CircleEntity (60, 60) 30 (Some (Some ''gray150''))]
      (create_window (Some ''gray'') (VideoVisualizer 120 120 6))
    = (Some ValueError,
       (create_window (Some ''gray'') (VideoVisualizer 120 120 6))\<lparr>open_figures := 1\<rparr>)"
    by (simp add: update_agents_def sample_runtime_def sample_canvas_def create_window_def
      VideoVisualizer_def convert_gray_name convert_gray150 draw_agent_def sample_colors_def)
  show "update_agents sample_runtime
        [CircleEntity (60, 60) 30 (Some (Some (''gray'' @ decimal (2 ^ 1024))))]
        (create_window (Some ''gray'') (VideoVisualizer 120 120 6))
    = (Some OverflowError,
       (create_window (Some ''gray'') (VideoVisualizer 120 120 6))\<lparr>open_figures := 1\<rparr>)"
    by (rule sample_capture_bad_circle [OF convert_overflow_token])
  show "open_figures (create_window (Some ''gray'') (VideoVisualizer 120 120 6)) = 0"
    by (simp add: create_window_def VideoVisualizer_def)
qed

subsection \<open>Sequences of captures\<close>

lemma step_frames:
  assumes "step rt c s = (r, s1)"
  shows "width s1 = width s \<and> height s1 = height s \<and> ppm s1 = ppm s
       \<and> (case (c, r) of
            (ClearFrames, r') \<Rightarrow> frames s1 = []
          | (UpdateAgents agents, None) \<Rightarrow>
              (\<exists>f. frames s1 = frames s @ [f]
                   \<and> captured rt (width s) (height s) (ppm s) agents f)
          | (c', r') \<Rightarrow> frames s1 = frames s)"
proof (cases c)
  case (UpdateAgents agents)
  show ?thesis
  proof (cases r)
    case None
    then show ?thesis
      using assms UpdateAgents update_agents_None [of rt agents s s1] by auto
  next
    case (Some e)
    then show ?thesis
      using assms UpdateAgents update_agents_Some [of rt agents s e s1]
      by (auto split: if_splits)
  qed
next
  case (SaveVideo filename fps)
  then show ?thesis
    using assms by (auto simp: save_video_def split: if_splits option.splits)
next
  case (SaveGif filename fps)
  then show ?thesis
    using assms by (auto simp: save_gif_def split: if_splits option.splits)
qed (use assms in \<open>auto simp: create_window_def close_def clear_frames_def\<close>)

lemma calls_frames:
  assumes "calls rt cs s = (made, s')"
  shows "map fst made = cs
       \<and> width s' = width s \<and> height s' = height s \<and> ppm s' = ppm s
       \<and> (\<exists>fs. frames s' = (if ClearFrames \<in> set cs then [] else frames s) @ fs
              \<and> list_all2 (captured rt (width s) (height s) (ppm s)) (captures made) fs)"
  using assms
proof (induction cs arbitrary: s made)
  case Nil
  then show ?case by simp
next
  case (Cons c cs)
  from Cons.prems obtain r s1 made1 where st: "step rt c s = (r, s1)"
    and rn: "calls rt cs s1 = (made1, s')" and lg: "made = (c, r) # made1"
    by (auto split: prod.splits)
  note d = step_frames [OF st]
  from Cons.IH [OF rn] d obtain fs where
    mp: "map fst made1 = cs"
    and dims: "width s' = width s \<and> height s' = height s \<and> ppm s' = ppm s"
    and fr: "frames s' = (if ClearFrames \<in> set cs then [] else frames s1) @ fs"
    and al: "list_all2 (captured rt (width s) (height s) (ppm s)) (captures made1) fs"
    by auto
  show ?case
  proof (cases "ClearFrames \<in> set cs")
    case True
    then show ?thesis using lg mp dims fr al by auto
  next
    case False
    show ?thesis
    proof (cases c)
      case (UpdateAgents agents)
      show ?thesis
      proof (cases r)
        case None
        then obtain f where "frames s1 = frames s @ [f]"
          and "captured rt (width s) (height s) (ppm s) agents f"
          using d UpdateAgents by auto
        then show ?thesis
          using False UpdateAgents None lg mp dims fr al by auto
      next
        case (Some e)
        then show ?thesis
          using False UpdateAgents d lg mp dims fr al by auto
      qed
    qed (use False d lg mp dims fr al in auto)
  qed
qed

text \<open>
  C1, as amended.  Take any sequence of calls on a recorder whose buffer is empty at the
  start or is cleared on the way, with every exception caught by the caller.  The buffer
  then holds one frame for each \<open>update_agents\<close> call since the last \<open>clear_frames\<close> that
  returned, in call order: the \<open>i\<close>-th frame is the one taken of the \<open>i\<close>-th entity list.
  All frames have the same shape, with 3 channels: the canvas size matplotlib gives the
  figure of \<open>width * ppm / 100\<close> by \<open>height * ppm / 100\<close> inches at 100 dpi.
\<close>

theorem frames_are_captures_since_clear:
  assumes "calls rt cs s = (made, s')" and "ClearFrames \<in> set cs \<or> frames s = []"
  shows "length (frames s') = length (captures made)
       \<and> list_all2 (captured rt (width s) (height s) (ppm s)) (captures made) (frames s')
       \<and> (\<forall>f \<in> set (frames s'). \<forall>g \<in> set (frames s').
             rows f = rows g \<and> cols f = cols g \<and> channels f = 3 \<and> channels g = 3)
       \<and> (\<forall>f \<in> set (frames s').
             new_figure rt (width s * real_of_int (ppm s) / 100)
               (height s * real_of_int (ppm s) / 100) = Some (cols f, rows f))"
proof -
  from calls_frames [OF assms(1)] assms(2)
  have al: "list_all2 (captured rt (width s) (height s) (ppm s)) (captures made) (frames s')"
    by auto
  then have len: "length (frames s') = length (captures made)"
    by (simp add: list_all2_lengthD)
  have each: "captured rt (width s) (height s) (ppm s) (captures made ! i) (frames s' ! i)"
    if "i < length (frames s')" for i
    using al that by (simp add: list_all2_conv_all_nth)
  have fig: "new_figure rt (width s * real_of_int (ppm s) / 100)
               (height s * real_of_int (ppm s) / 100) = Some (cols f, rows f) \<and> channels f = 3"
    if "f \<in> set (frames s')" for f
  proof -
    from that obtain i where "i < length (frames s')" and "frames s' ! i = f"
      by (auto simp: in_set_conv_nth)
    then show ?thesis
      using each [of i] by (simp add: captured_def)
  qed
  have same: "rows f = rows g \<and> cols f = cols g \<and> channels f = 3 \<and> channels g = 3"
    if "f \<in> set (frames s')" and "g \<in> set (frames s')" for f g
    using fig [OF that(1)] fig [OF that(2)] by simp
  show ?thesis
    using al len same fig by blast
qed

lemma sample_capture_circle:
  assumes "width s = 120" and "height s = 120" and "ppm s = 6" and "bg_color s = None"
  shows "update_agents sample_runtime [CircleEntity (60, 60) 30 (Some (Some ''gray''))] s =
           (None, s\<lparr>frames := frames s @
              [\<lparr>rows = 720, cols = 720, channels = 3, figure_color = Name ''white'',
                xlim = (0, 120), ylim = (0, 120), facecolor = Name ''gray'',
                patches = [MplCircle (60, 60) 30 (Name ''gray'')]\<rparr>]\<rparr>)"
  using assms
  by (simp add: update_agents_def sample_runtime_def sample_canvas_def convert_gray_name
      draw_agent_def sample_colors_def)

lemma sample_capture_rejected:
  assumes "width s = 120" and "height s = 120" and "ppm s = 6" and "bg_color s = None"
  shows "update_agents sample_runtime [CircleEntity (60, 60) 30 (Some (Some ''gray150''))] s =
           (Some ValueError, s\<lparr>open_figures := open_figures s + 1\<rparr>)"
  using assms
  by (simp add: update_agents_def sample_runtime_def sample_canvas_def convert_gray_name
      convert_gray150 draw_agent_def sample_colors_def)

theorem frames_are_captures_since_clear_witness:
  "calls sample_runtime
     [UpdateAgents [], ClearFrames,
      UpdateAgents [CircleEntity (60, 60) 30 (Some (Some ''gray''))],
      UpdateAgents [CircleEntity (60, 60) 30 (Some (Some ''gray150''))],
      UpdateAgents []]
     (VideoVisualizer 120 120 6)
   = ([(UpdateAgents [], None), (ClearFrames, None),
       (UpdateAgents [CircleEntity (60, 60) 30 (Some (Some ''gray''))], None),
       (UpdateAgents [CircleEntity (60, 60) 30 (Some (Some ''gray150''))], Some ValueError),
       (UpdateAgents [], None)],
      (VideoVisualizer 120 120 6)
        \<lparr>frames :=
           [\<lparr>rows = 720, cols = 720, channels = 3, figure_color = Name ''white'',
             xlim = (0, 120), ylim = (0, 120), facecolor = Name ''gray'',
             patches = [MplCircle (60, 60) 30 (Name ''gray'')]\<rparr>,
            \<lparr>rows = 720, cols = 720, channels = 3, figure_color = Name ''white'',
             xlim = (0, 120), ylim = (0, 120), facecolor = Name ''gray'',
             patches = []\<rparr>],
         open_figures := 1\<rparr>)
   \<and> captures
       [(UpdateAgents [], None), (ClearFrames, None),
        (UpdateAgents [CircleEntity (60, 60) 30 (Some (Some ''gray''))], None),
        (UpdateAgents [CircleEntity (60, 60) 30 (Some (Some ''gray150''))], Some ValueError),
        (UpdateAgents [], None)]
      = [[CircleEntity (60, 60) 30 (Some (Some ''gray''))], []]
   \<and> length (frames (snd (calls sample_runtime
       [UpdateAgents [], ClearFrames,
        UpdateAgents [CircleEntity (60, 60) 30 (Some (Some ''gray''))],
        UpdateAgents [CircleEntity (60, 60) 30 (Some (Some ''gray150''))],
        UpdateAgents []]
       (VideoVisualizer 120 120 6)))) = 2"
proof -
  define cs where "cs =
     [UpdateAgents [], ClearFrames,
      UpdateAgents [CircleEntity (60, 60) 30 (Some (Some ''gray''))],
      UpdateAgents [CircleEntity (60, 60) 30 (Some (Some ''gray150''))],
      UpdateAgents []]"
  define made where "made =
     [(UpdateAgents [], None), (ClearFrames, None),
      (UpdateAgents [CircleEntity (60, 60) 30 (Some (Some ''gray''))], None),
      (UpdateAgents [CircleEntity (60, 60) 30 (Some (Some ''gray150''))], Some ValueError),
      (UpdateAgents [], None)]"
  define s' where "s' = (VideoVisualizer 120 120 6)
        \<lparr>frames :=
           [\<lparr>rows = 720, cols = 720, channels = 3, figure_color = Name ''white'',
             xlim = (0, 120), ylim = (0, 120), facecolor = Name ''gray'',
             patches = [MplCircle (60, 60) 30 (Name ''gray'')]\<rparr>,
            \<lparr>rows = 720, cols = 720, channels = 3, figure_color = Name ''white'',
             xlim = (0, 120), ylim = (0, 120), facecolor = Name ''gray'',
             patches = []\<rparr>],
         open_figures := 1\<rparr>"
  have r: "calls sample_runtime cs (VideoVisualizer 120 120 6) = (made, s')"
    unfolding cs_def made_def s'_def
    by (simp add: sample_capture_empty sample_capture_circle sample_capture_rejected
        VideoVisualizer_def clear_frames_def)
  have c: "ClearFrames \<in> set cs \<or> frames (VideoVisualizer 120 120 6) = []"
    by (simp add: cs_def)
  have k: "captures made = [[CircleEntity (60, 60) 30 (Some (Some ''gray''))], []]"
    by (simp add: made_def)
  have "length (frames s') = length (captures made)"
    using frames_are_captures_since_clear [OF r c] by (elim conjE)
  then have "length (frames (snd (calls sample_runtime cs (VideoVisualizer 120 120 6)))) = 2"
    using r k by simp
  then show ?thesis
    using r k unfolding cs_def made_def s'_def by (intro conjI)
qed

text \<open>
  C1 as stated, frames of \<open>width * ppm\<close> pixels, fails for a world of width 10.5 at
  density 3: the product is 31.5 and the frame is 31 pixels wide.
\<close>

theorem frame_width_is_truncated:
  "fst (update_agents sample_runtime [] (VideoVisualizer 10.5 10 3)) = None
   \<and> cols (last (frames (snd (update_agents sample_runtime [] (VideoVisualizer 10.5 10 3))))) = 31
   \<and> width (VideoVisualizer 10.5 10 3) * real_of_int (ppm (VideoVisualizer 10.5 10 3)) = 31.5"
  by (simp add: update_agents_def sample_runtime_def sample_canvas_def convert_gray_name
      sample_colors_def VideoVisualizer_def)

subsection \<open>Rings\<close>













subsection \<open>Saving\<close>

text \<open>
  C9.  \<open>save_video\<close> and \<open>save_gif\<close> are the same function of the runtime, the path, the
  frame rate and the state: the same guard on an empty buffer, the same call of the
  encoder with the same arguments, the same message, the buffer left as it was.  The
  container format can depend on nothing but what the encoder is given, the path among it.
\<close>

theorem save_gif_is_save_video: "save_gif rt filename fps s = save_video rt filename fps s"
  by (simp add: save_gif_def save_video_def)

text \<open>
  C6.  With an empty frame buffer, \<open>save_video\<close> and \<open>save_gif\<close> return without an
  exception, whatever the path and the frame rate; they print the line
  \<open>No frames to save!\<close> and change nothing else: no file is written and every attribute
  of the recorder is as before.
\<close>

theorem save_empty_buffer:
  assumes "frames s = []"
  shows "save_video rt filename fps s = (None, s\<lparr>stdout := stdout s @ [''No frames to save!'']\<rparr>)
       \<and> save_gif rt filename fps s = (None, s\<lparr>stdout := stdout s @ [''No frames to save!'']\<rparr>)
       \<and> files (snd (save_video rt filename fps s)) = files s
       \<and> files (snd (save_gif rt filename fps s)) = files s
       \<and> frames (snd (save_video rt filename fps s)) = []
       \<and> frames (snd (save_gif rt filename fps s)) = []"
  using assms by (simp add: save_video_def save_gif_def)

theorem save_empty_buffer_witness:
  "frames (VideoVisualizer 120 120 6) = []
   \<and> save_video sample_runtime ''out.mp4'' 10 (VideoVisualizer 120 120 6)
       = (None, (VideoVisualizer 120 120 6)\<lparr>stdout := [''No frames to save!'']\<rparr>)
   \<and> save_gif sample_runtime ''out.gif'' 10 (VideoVisualizer 120 120 6)
       = (None, (VideoVisualizer 120 120 6)\<lparr>stdout := [''No frames to save!'']\<rparr>)"
proof -
  have e: "frames (VideoVisualizer 120 120 6) = []"
    by (simp add: VideoVisualizer_def)
  have o: "stdout (VideoVisualizer 120 120 6) = []"
    by (simp add: VideoVisualizer_def)
  show ?thesis
    using e o save_empty_buffer [OF e, of sample_runtime "''out.mp4''" 10]
      save_empty_buffer [OF e, of sample_runtime "''out.gif''" 10]
    by simp
qed

end
